theory Spec2Isabelle
  imports Complex_Main
begin

section \<open>Numbers and rounding\<close>

text \<open>
  The script \<^verbatim>\<open>scripts/download_climate_data.py\<close> computes with Python and numpy floats.
  The embedding takes every measured value as an exact rational number, so that the
  arithmetic of the aggregation (mean, maximum, minimum, sum, quotient) is the
  mathematical one.  \<^verbatim>\<open>round(x, n)\<close> on a numpy float and \<^verbatim>\<open>Series.round(n)\<close> scale by
  \<open>10 ^ n\<close>, round to the nearest integer with ties going to the even neighbour, and
  scale back; \<open>rint\<close> is that integer rounding.

  This is an idealisation.  The code's doubles carry a representation error (a decimal
  such as 0.545 is not a binary fraction, a sum such as 0.01 + 2.34 is not exact), and
  near a tie that error can move the last rounded digit of a mean, a sum or a quotient
  away from the exact one.  What is proved below about numbers is what does not hang on
  that digit: which values enter which list, orderings that every monotone rounding
  keeps, ranges enforced by clipping, the guards against division by zero, and the
  values at inputs where the arithmetic of doubles is exact.
\<close>

definition rint :: "rat \<Rightarrow> int" where
  "rint x = (let f = \<lfloor>x\<rfloor>; d = x - of_int f in
     if d < 1 / 2 then f else if 1 / 2 < d then f + 1 else if even f then f else f + 1)"

definition py_round :: "rat \<Rightarrow> nat \<Rightarrow> rat" where
  "py_round x n = of_int (rint (x * 10 ^ n)) / 10 ^ n"

text \<open>\<^verbatim>\<open>Series.clip(lo, hi)\<close> and \<^verbatim>\<open>Series.replace(0, 1)\<close>, on one entry.\<close>

definition clip :: "rat \<Rightarrow> rat \<Rightarrow> rat \<Rightarrow> rat" where
  "clip lo hi x = (if x < lo then lo else if hi < x then hi else x)"

definition replace01 :: "rat \<Rightarrow> rat" where
  "replace01 x = (if x = 0 then 1 else x)"

text \<open>
  \<^verbatim>\<open>np.mean\<close>, \<^verbatim>\<open>np.max\<close>, \<^verbatim>\<open>np.min\<close> and \<^verbatim>\<open>np.sum\<close> of a list of numbers.  The aggregator
  calls them on non-empty lists only (behind the truthiness test of all five lists).
\<close>

definition np_mean :: "rat list \<Rightarrow> rat" where
  "np_mean xs = sum_list xs / of_nat (length xs)"

definition np_max :: "rat list \<Rightarrow> rat" where
  "np_max xs = Max (set xs)"

definition np_min :: "rat list \<Rightarrow> rat" where
  "np_min xs = Min (set xs)"

definition np_sum :: "rat list \<Rightarrow> rat" where
  "np_sum xs = sum_list xs"

section \<open>Parsing the day keys of a response\<close>

text \<open>
  The keys of a variable map are strings such as \<^verbatim>\<open>20200131\<close>.  The fetcher slices them
  and converts each slice with \<^verbatim>\<open>int\<close>, which raises \<^verbatim>\<open>ValueError\<close> on anything that is not
  an integer literal: optional surrounding white space, an optional sign, then digits
  with single underscores allowed between digits.  Strings are taken to be ASCII.
  \<open>None\<close> stands for the raised \<^verbatim>\<open>ValueError\<close>.
\<close>

definition is_digit :: "char \<Rightarrow> bool" where
  "is_digit c = (48 \<le> (of_char c :: nat) \<and> (of_char c :: nat) \<le> 57)"

definition digit_val :: "char \<Rightarrow> nat" where
  "digit_val c = (of_char c :: nat) - 48"

definition is_space :: "char \<Rightarrow> bool" where
  "is_space c = ((of_char c :: nat) \<in> {9, 10, 11, 12, 13, 28, 29, 30, 31, 32})"

definition strip :: "string \<Rightarrow> string" where
  "strip s = rev (dropWhile is_space (rev (dropWhile is_space s)))"

fun digits_from :: "nat \<Rightarrow> string \<Rightarrow> nat option" where
  "digits_from acc [] = Some acc"
| "digits_from acc [c] = (if is_digit c then Some (10 * acc + digit_val c) else None)"
| "digits_from acc (c # d # cs) =
     (if is_digit c then digits_from (10 * acc + digit_val c) (d # cs)
      else if c = CHR ''_'' \<and> is_digit d then digits_from (10 * acc + digit_val d) cs
      else None)"

definition unsigned_int :: "string \<Rightarrow> nat option" where
  "unsigned_int s =
     (case s of [] \<Rightarrow> None
      | c # cs \<Rightarrow> if is_digit c then digits_from (digit_val c) cs else None)"

definition py_int :: "string \<Rightarrow> int option" where
  "py_int s =
     (case strip s of [] \<Rightarrow> None
      | c # cs \<Rightarrow>
          if c = CHR ''-'' then map_option (\<lambda>n. - int n) (unsigned_int cs)
          else if c = CHR ''+'' then map_option int (unsigned_int cs)
          else map_option int (unsigned_int (c # cs)))"

text \<open>
  \<^verbatim>\<open>datetime(year, month, day)\<close> raises \<^verbatim>\<open>ValueError\<close> unless the year is in 1..9999, the
  month in 1..12 and the day exists in that month.
\<close>

definition is_leap :: "int \<Rightarrow> bool" where
  "is_leap y = (y mod 4 = 0 \<and> (y mod 100 \<noteq> 0 \<or> y mod 400 = 0))"

definition days_in_month :: "int \<Rightarrow> int \<Rightarrow> int" where
  "days_in_month y m =
     (if m = 2 then (if is_leap y then 29 else 28)
      else if m \<in> {4, 6, 9, 11} then 30 else 31)"

definition valid_date :: "int \<Rightarrow> int \<Rightarrow> int \<Rightarrow> bool" where
  "valid_date y m d =
     (1 \<le> y \<and> y \<le> 9999 \<and> 1 \<le> m \<and> m \<le> 12 \<and> 1 \<le> d \<and> d \<le> days_in_month y m)"

text \<open>
  The monthly aggregation key is the string \<^verbatim>\<open>f"{year}-{month:02d}-01"\<close>.  On valid dates
  that string determines the pair (year, month) and is determined by it, so the key is
  kept as the pair.
\<close>

type_synonym month_key = "int \<times> int"

definition parse_day :: "string \<Rightarrow> month_key option" where
  "parse_day date_str =
     (case py_int (take 4 date_str) of None \<Rightarrow> None
      | Some year \<Rightarrow>
     (case py_int (take 2 (drop 4 date_str)) of None \<Rightarrow> None
      | Some month \<Rightarrow>
     (case py_int (take 2 (drop 6 date_str)) of None \<Rightarrow> None
      | Some day \<Rightarrow> if valid_date year month day then Some (year, month) else None)))"

section \<open>The chunked fetcher: accumulating daily values\<close>

text \<open>
  \<open>all_data\<close> is the dictionary of six parallel lists the fetcher fills: the month keys
  in the order they were first seen and, for each key, the list of daily values of each
  of the five variables.
\<close>

record all_data =
  dates :: "month_key list"
  temps_avg :: "rat list list"
  temps_max :: "rat list list"
  temps_min :: "rat list list"
  rainfall :: "rat list list"
  humidity :: "rat list list"

definition empty_data :: all_data where
  "empty_data = \<lparr>dates = [], temps_avg = [], temps_max = [], temps_min = [],
                  rainfall = [], humidity = []\<rparr>"

text \<open>
  A response carries \<^verbatim>\<open>properties.parameter\<close>: for each variable code that is present, a
  dictionary from day key to value, kept as an association list in the order of the
  JSON document (the order \<^verbatim>\<open>.items()\<close> iterates in).
\<close>

type_synonym day_map = "(string \<times> rat) list"
type_synonym properties = "string \<Rightarrow> day_map option"

text \<open>\<^verbatim>\<open>properties[var][date_str]\<close>; \<open>None\<close> stands for the raised \<^verbatim>\<open>KeyError\<close>.\<close>

definition lookup :: "properties \<Rightarrow> string \<Rightarrow> string \<Rightarrow> rat option" where
  "lookup props var date_str =
     (case props var of None \<Rightarrow> None | Some m \<Rightarrow> map_of m date_str)"

text \<open>\<^verbatim>\<open>if date_key not in all_data['dates']\<close>: open a new bucket in all six lists.\<close>

definition ensure_key :: "month_key \<Rightarrow> all_data \<Rightarrow> all_data" where
  "ensure_key k a =
     (if k \<in> set (dates a) then a
      else \<lparr>dates = dates a @ [k], temps_avg = temps_avg a @ [[]],
            temps_max = temps_max a @ [[]], temps_min = temps_min a @ [[]],
            rainfall = rainfall a @ [[]], humidity = humidity a @ [[]]\<rparr>)"

text \<open>\<^verbatim>\<open>list.index\<close>: the first position of the key (the key is present when it is called).\<close>

fun index_of :: "'a \<Rightarrow> 'a list \<Rightarrow> nat" where
  "index_of k [] = 0"
| "index_of k (x # xs) = (if x = k then 0 else Suc (index_of k xs))"

text \<open>\<^verbatim>\<open>xss[idx].append(v)\<close>.\<close>

definition append_at :: "nat \<Rightarrow> rat \<Rightarrow> rat list list \<Rightarrow> rat list list" where
  "append_at idx v xss = xss[idx := xss ! idx @ [v]]"

text \<open>
  The body of the loop over the items of the \<^verbatim>\<open>T2M\<close> map, with its
  \<^verbatim>\<open>except (KeyError, ValueError, IndexError): continue\<close>.  The appends and the look-ups
  alternate in the source, so an exception raised by a look-up leaves the appends made
  before it in place: each \<open>None\<close> branch returns the state reached so far.
\<close>

definition process_day :: "properties \<Rightarrow> string \<times> rat \<Rightarrow> all_data \<Rightarrow> all_data" where
  "process_day props item a =
     (case parse_day (fst item) of None \<Rightarrow> a
      | Some date_key \<Rightarrow>
        let a0 = ensure_key date_key a;
            idx = index_of date_key (dates a0);
            a1 = a0\<lparr>temps_avg := append_at idx (snd item) (temps_avg a0)\<rparr>
        in (case lookup props ''T2M_MAX'' (fst item) of None \<Rightarrow> a1
            | Some v_max \<Rightarrow>
        let a2 = a1\<lparr>temps_max := append_at idx v_max (temps_max a1)\<rparr>
        in (case lookup props ''T2M_MIN'' (fst item) of None \<Rightarrow> a2
            | Some v_min \<Rightarrow>
        let a3 = a2\<lparr>temps_min := append_at idx v_min (temps_min a2)\<rparr>
        in (case lookup props ''PRECTOTCORR'' (fst item) of None \<Rightarrow> a3
            | Some v_rain \<Rightarrow>
        let a4 = a3\<lparr>rainfall := append_at idx v_rain (rainfall a3)\<rparr>
        in (case lookup props ''RH2M'' (fst item) of None \<Rightarrow> a4
            | Some v_hum \<Rightarrow> a4\<lparr>humidity := append_at idx v_hum (humidity a4)\<rparr>)))))"

text \<open>\<^verbatim>\<open>if 'T2M' in properties: for date_str, temp_avg in properties['T2M'].items(): ...\<close>\<close>

definition process_chunk :: "properties \<Rightarrow> all_data \<Rightarrow> all_data" where
  "process_chunk props a =
     (case props ''T2M'' of None \<Rightarrow> a | Some items \<Rightarrow> fold (process_day props) items a)"

section \<open>The chunked fetcher: requests, retries and the chunk loop\<close>

text \<open>
  The remote service is a parameter: \<open>net n\<close> is what \<^verbatim>\<open>try_request\<close> returns for the
  \<open>n\<close>-th request of the run, either the parsed \<^verbatim>\<open>properties.parameter\<close> of a response with
  status 200 or \<open>None\<close> (any other status, a timeout, a request error).  The state of
  the outside world is the number of requests made so far and the trace of requests and
  sleeps, in order.
\<close>

datatype event = Request rat rat int int | Sleep nat

record io =
  nreq :: nat
  trace :: "event list"

type_synonym network = "nat \<Rightarrow> properties option"

definition sleep :: "nat \<Rightarrow> io \<Rightarrow> io" where
  "sleep secs s = s\<lparr>trace := trace s @ [Sleep secs]\<rparr>"

text \<open>
  \<^verbatim>\<open>try_request(start_date, end_date)\<close>; the dates are \<^verbatim>\<open>f"{year_start}0101"\<close> and
  \<^verbatim>\<open>f"{year_end}1231"\<close>, recorded in the trace by their years.
\<close>

definition try_request ::
  "network \<Rightarrow> rat \<Rightarrow> rat \<Rightarrow> int \<Rightarrow> int \<Rightarrow> io \<Rightarrow> properties option \<times> io" where
  "try_request net lat lon year_start year_end s =
     (net (nreq s),
      s\<lparr>nreq := Suc (nreq s), trace := trace s @ [Request lat lon year_start year_end]\<rparr>)"

text \<open>
  \<^verbatim>\<open>for attempt in range(3)\<close>: stop at the first response; after a failed attempt sleep
  \<^verbatim>\<open>(attempt + 1) * 10\<close> seconds if \<^verbatim>\<open>attempt < 2\<close>.  The list argument is the part of
  \<^verbatim>\<open>range(3)\<close> still to run.
\<close>

fun attempts ::
  "network \<Rightarrow> rat \<Rightarrow> rat \<Rightarrow> int \<Rightarrow> int \<Rightarrow> nat list \<Rightarrow> io \<Rightarrow> properties option \<times> io" where
  "attempts net lat lon ys ye [] s = (None, s)"
| "attempts net lat lon ys ye (attempt # rest) s =
     (case try_request net lat lon ys ye s of
        (Some data, s1) \<Rightarrow> (Some data, s1)
      | (None, s1) \<Rightarrow>
          if attempt < 2 then attempts net lat lon ys ye rest (sleep ((attempt + 1) * 10) s1)
          else attempts net lat lon ys ye rest s1)"

text \<open>\<^verbatim>\<open>range(start, stop, 2)\<close>.\<close>

function py_range2 :: "int \<Rightarrow> int \<Rightarrow> int list" where
  "py_range2 i stop = (if i < stop then i # py_range2 (i + 2) stop else [])"
  by pat_completeness auto
termination
  by (relation "measure (\<lambda>(i, stop). nat (stop - i))") auto

text \<open>
  The state of the chunk loop: the accumulated lists, the flag \<^verbatim>\<open>all_chunks_successful\<close>
  and the outside world.  A chunk whose three attempts all failed clears the flag and
  goes on to the next chunk (\<^verbatim>\<open>continue\<close>, which also skips the one-second pause); a
  chunk with a response is folded into the lists and followed by the pause.
\<close>

definition chunk_step ::
  "network \<Rightarrow> rat \<Rightarrow> rat \<Rightarrow> int \<Rightarrow> int \<Rightarrow> all_data \<times> bool \<times> io \<Rightarrow> all_data \<times> bool \<times> io" where
  "chunk_step net lat lon end_year year_start st =
     (case st of (a, ok, s) \<Rightarrow>
        let year_end = min (year_start + 2 - 1) end_year
        in (case attempts net lat lon year_start year_end [0..<3] s of
              (None, s1) \<Rightarrow> (a, False, s1)
            | (Some props, s1) \<Rightarrow> (process_chunk props a, ok, sleep 1 s1)))"

definition chunk_loop ::
  "network \<Rightarrow> rat \<Rightarrow> rat \<Rightarrow> int \<Rightarrow> int list \<Rightarrow> all_data \<times> bool \<times> io \<Rightarrow> all_data \<times> bool \<times> io" where
  "chunk_loop net lat lon end_year years st = fold (chunk_step net lat lon end_year) years st"

definition accumulate ::
  "network \<Rightarrow> rat \<Rightarrow> rat \<Rightarrow> int \<Rightarrow> int \<Rightarrow> io \<Rightarrow> all_data \<times> bool \<times> io" where
  "accumulate net lat lon start_year end_year s =
     chunk_loop net lat lon end_year (py_range2 start_year (end_year + 1)) (empty_data, True, s)"

section \<open>The daily-to-monthly aggregator\<close>

record monthly =
  Date :: month_key
  Avg_Temp_C :: rat
  Max_Temp_C :: rat
  Min_Temp_C :: rat
  Rainfall_mm :: rat
  Humidity_Percent :: rat

text \<open>The truthiness test of the five lists of month \<open>i\<close>.\<close>

definition all_five :: "all_data \<Rightarrow> nat \<Rightarrow> bool" where
  "all_five a i =
     (temps_avg a ! i \<noteq> [] \<and> temps_max a ! i \<noteq> [] \<and> temps_min a ! i \<noteq> [] \<and>
      rainfall a ! i \<noteq> [] \<and> humidity a ! i \<noteq> [])"

definition month_record :: "all_data \<Rightarrow> nat \<Rightarrow> monthly" where
  "month_record a i =
     \<lparr>Date = dates a ! i,
      Avg_Temp_C = py_round (np_mean (temps_avg a ! i)) 2,
      Max_Temp_C = py_round (np_max (temps_max a ! i)) 2,
      Min_Temp_C = py_round (np_min (temps_min a ! i)) 2,
      Rainfall_mm = py_round (np_sum (rainfall a ! i)) 1,
      Humidity_Percent = py_round (np_mean (humidity a ! i)) 1\<rparr>"

text \<open>\<^verbatim>\<open>for i, month_key in enumerate(all_data['dates'])\<close>.\<close>

definition monthly_data :: "all_data \<Rightarrow> monthly list" where
  "monthly_data a = map (month_record a) (filter (all_five a) [0..<length (dates a)])"

text \<open>
  \<^verbatim>\<open>df.sort_values('Date')\<close> on the parsed dates: chronological order, which on the keys
  is the order of \<open>12 * year + month\<close>.  \<^verbatim>\<open>pd.to_datetime\<close> parses the key strings
  again and \<^verbatim>\<open>strftime\<close> writes them back; for the four-digit years of the requested
  window that returns the key itself, and the model takes it so (a day key with a year
  below 1000 is outside it).
\<close>

definition month_ordinal :: "month_key \<Rightarrow> int" where
  "month_ordinal k = 12 * fst k + snd k"

definition sort_by_date :: "monthly list \<Rightarrow> monthly list" where
  "sort_by_date rows = sort_key (\<lambda>r. month_ordinal (Date r)) rows"

text \<open>
  What a call of the fetcher does: it returns a value or lets an exception escape.
  \<^verbatim>\<open>pd.DataFrame([])\<close> has no columns, so when months were seen but none has all five
  lists non-empty, \<^verbatim>\<open>df['Date']\<close> raises \<^verbatim>\<open>KeyError\<close>, which nothing in the function
  catches.
\<close>

datatype py_error = KeyError

datatype 'a outcome = Raised py_error | Returned 'a

definition finish :: "all_data \<Rightarrow> monthly list option outcome" where
  "finish a =
     (if dates a = [] then Returned None
      else let rows = monthly_data a
           in if rows = [] then Raised KeyError
              else Returned (Some (sort_by_date rows)))"

definition download_nasa_power_data ::
  "network \<Rightarrow> rat \<Rightarrow> rat \<Rightarrow> int \<Rightarrow> int \<Rightarrow> io \<Rightarrow> monthly list option outcome \<times> io" where
  "download_nasa_power_data net lat lon start_year end_year s =
     (case accumulate net lat lon start_year end_year s of
        (a, ok, s1) \<Rightarrow> (finish a, s1))"

section \<open>The derived-index calculator\<close>

text \<open>
  The random draws of \<^verbatim>\<open>np.random\<close> are a parameter: for the row at position \<open>j\<close> of a
  location's table, \<open>heat_draw\<close> is the entry of \<^verbatim>\<open>randint(0, 10, n)\<close>, \<open>share_draw\<close> the entry
  of \<^verbatim>\<open>uniform(0.3, 0.5, n)\<close>, and \<open>below_draw\<close>, \<open>above_draw\<close> the entries of the two
  \<^verbatim>\<open>uniform(10, 20, n)\<close>.
\<close>

record draws =
  heat_draw :: "nat \<Rightarrow> int"
  share_draw :: "nat \<Rightarrow> rat"
  below_draw :: "nat \<Rightarrow> rat"
  above_draw :: "nat \<Rightarrow> rat"

record temp_row =
  t_Date :: month_key
  t_Year :: int
  t_Month :: int
  t_Zone :: string
  t_State :: string
  t_Avg_Temp_C :: rat
  t_Min_Temp_C :: rat
  t_Max_Temp_C :: rat
  Temp_Range_C :: rat
  Heat_Stress_Days :: int
  Cold_Stress_Days :: int

record rain_row =
  r_Date :: month_key
  r_Year :: int
  r_Month :: int
  r_Zone :: string
  r_State :: string
  r_Rainfall_mm :: rat
  Rainy_Days :: int
  Max_Daily_Rainfall_mm :: rat
  Rainfall_Intensity :: rat
  Drought_Index :: rat
  Flood_Risk_Index :: rat

record humid_row =
  h_Date :: month_key
  h_Year :: int
  h_Month :: int
  h_Zone :: string
  h_State :: string
  Avg_Humidity_Percent :: rat
  Min_Humidity_Percent :: rat
  Max_Humidity_Percent :: rat

text \<open>
  The temperature table of one location.  The difference of the two rounded
  temperatures is the exact one here; the code subtracts doubles.
\<close>

definition temp_rows :: "string \<Rightarrow> string \<Rightarrow> draws \<Rightarrow> monthly list \<Rightarrow> temp_row list" where
  "temp_rows zone state dr df =
     map (\<lambda>(j, r).
        \<lparr>t_Date = Date r, t_Year = fst (Date r), t_Month = snd (Date r),
         t_Zone = zone, t_State = state,
         t_Avg_Temp_C = Avg_Temp_C r, t_Min_Temp_C = Min_Temp_C r, t_Max_Temp_C = Max_Temp_C r,
         Temp_Range_C = py_round (Max_Temp_C r - Min_Temp_C r) 1,
         Heat_Stress_Days = (if 35 < Max_Temp_C r then 1 else 0) * heat_draw dr j,
         Cold_Stress_Days = 0\<rparr>) (enumerate 0 df)"

text \<open>
  \<^verbatim>\<open>rain_df.groupby(['State', 'Month'])['Rainfall_mm'].transform('mean')\<close>: the table holds
  one state, so the group of a row is the rows of the same month of the year, the row
  itself among them.  The column has been rounded to one decimal before.
\<close>

definition expected_rainfall :: "monthly list \<Rightarrow> monthly \<Rightarrow> rat" where
  "expected_rainfall df r =
     np_mean (map (\<lambda>q. py_round (Rainfall_mm q) 1)
                  (filter (\<lambda>q. snd (Date q) = snd (Date r)) df))"

definition rain_row_of :: "string \<Rightarrow> string \<Rightarrow> draws \<Rightarrow> monthly list \<Rightarrow> nat \<Rightarrow> monthly \<Rightarrow> rain_row" where
  "rain_row_of zone state dr df j r =
     (let rain = py_round (Rainfall_mm r) 1;
          rainy = rint (clip 0 30 (rain / 5));
          max_daily = py_round (rain * share_draw dr j) 1;
          expected = expected_rainfall df r
      in \<lparr>r_Date = Date r, r_Year = fst (Date r), r_Month = snd (Date r),
          r_Zone = zone, r_State = state,
          r_Rainfall_mm = rain,
          Rainy_Days = rainy,
          Max_Daily_Rainfall_mm = max_daily,
          Rainfall_Intensity = py_round (rain / replace01 (of_int rainy)) 2,
          Drought_Index = py_round (clip 0 1 (1 - rain / replace01 expected)) 3,
          Flood_Risk_Index =
            py_round (clip 0 1 ((max_daily / replace01 rain) * (rain / replace01 expected))) 3\<rparr>)"

definition rain_rows :: "string \<Rightarrow> string \<Rightarrow> draws \<Rightarrow> monthly list \<Rightarrow> rain_row list" where
  "rain_rows zone state dr df = map (\<lambda>(j, r). rain_row_of zone state dr df j r) (enumerate 0 df)"

definition humid_rows :: "string \<Rightarrow> string \<Rightarrow> draws \<Rightarrow> monthly list \<Rightarrow> humid_row list" where
  "humid_rows zone state dr df =
     map (\<lambda>(j, r).
        let hum = py_round (Humidity_Percent r) 1
        in \<lparr>h_Date = Date r, h_Year = fst (Date r), h_Month = snd (Date r),
            h_Zone = zone, h_State = state,
            Avg_Humidity_Percent = hum,
            Min_Humidity_Percent = py_round (hum - below_draw dr j) 1,
            Max_Humidity_Percent = py_round (hum + above_draw dr j) 1\<rparr>) (enumerate 0 df)"

section \<open>The collection orchestrator\<close>

record config =
  ZONES :: "(string \<times> (string \<times> rat \<times> rat) list) list"
  START_YEAR :: int
  END_YEAR :: int

text \<open>The class \<^verbatim>\<open>Config\<close> of the script: zone, state, latitude, longitude.\<close>

definition Config :: config where
  "Config =
     \<lparr>ZONES =
        [(''North-West'', [(''Kaduna'', 1052 / 100, 744 / 100), (''Kano'', 12, 852 / 100),
                           (''Sokoto'', 1306 / 100, 524 / 100)]),
         (''North-East'', [(''Borno'', 1185 / 100, 1309 / 100), (''Bauchi'', 1031 / 100, 984 / 100),
                           (''Adamawa'', 933 / 100, 1238 / 100)]),
         (''North-Central'', [(''Benue'', 773 / 100, 854 / 100), (''Plateau'', 993 / 100, 889 / 100),
                              (''Niger'', 993 / 100, 654 / 100)]),
         (''South-West'', [(''Oyo'', 785 / 100, 393 / 100), (''Ogun'', 716 / 100, 335 / 100),
                           (''Ondo'', 725 / 100, 519 / 100)]),
         (''South-East'', [(''Enugu'', 686 / 100, 739 / 100), (''Abia'', 545 / 100, 752 / 100),
                           (''Ebonyi'', 627 / 100, 801 / 100)]),
         (''South-South'', [(''Rivers'', 482 / 100, 701 / 100), (''Delta'', 568 / 100, 592 / 100),
                            (''Akwa Ibom'', 501 / 100, 785 / 100)])],
      START_YEAR = 1990,
      END_YEAR = 2023\<rparr>"

text \<open>The accumulators of \<^verbatim>\<open>collect_all_nasa_climate_data\<close>.\<close>

record collector =
  all_temperature_data :: "temp_row list list"
  all_rainfall_data :: "rain_row list list"
  all_humidity_data :: "humid_row list list"
  current_state :: nat
  failed_states :: "string list"

definition empty_collector :: collector where
  "empty_collector =
     \<lparr>all_temperature_data = [], all_rainfall_data = [], all_humidity_data = [],
      current_state = 0, failed_states = []\<rparr>"

text \<open>
  One turn of the inner loop, for one state.  The call of the fetcher is not inside any
  \<^verbatim>\<open>try\<close>, so an exception that escapes the fetcher ends the whole collection.  The
  random draws of a location are those of its number \<open>current_state\<close>.
\<close>

definition state_step ::
  "network \<Rightarrow> (nat \<Rightarrow> draws) \<Rightarrow> config \<Rightarrow> string \<Rightarrow> string \<times> rat \<times> rat \<Rightarrow>
   collector \<times> io \<Rightarrow> (collector \<times> io) outcome" where
  "state_step net rnd cfg zone entry st =
     (case (entry, st) of ((state, lat, lon), (c, s)) \<Rightarrow>
        let c1 = c\<lparr>current_state := current_state c + 1\<rparr>
        in (case download_nasa_power_data net lat lon (START_YEAR cfg) (END_YEAR cfg) s of
              (Raised e, s1) \<Rightarrow> Raised e
            | (Returned df_opt, s1) \<Rightarrow>
                (case df_opt of
                   Some df \<Rightarrow>
                     if 0 < length df then
                       let dr = rnd (current_state c1)
                       in Returned
                            (c1\<lparr>all_temperature_data :=
                                  all_temperature_data c1 @ [temp_rows zone state dr df],
                                all_rainfall_data :=
                                  all_rainfall_data c1 @ [rain_rows zone state dr df],
                                all_humidity_data :=
                                  all_humidity_data c1 @ [humid_rows zone state dr df]\<rparr>,
                             sleep 3 s1)
                     else Returned (c1\<lparr>failed_states := failed_states c1 @ [state]\<rparr>, sleep 3 s1)
                 | None \<Rightarrow>
                     Returned (c1\<lparr>failed_states := failed_states c1 @ [state]\<rparr>, sleep 3 s1))))"

fun run_states ::
  "network \<Rightarrow> (nat \<Rightarrow> draws) \<Rightarrow> config \<Rightarrow> string \<Rightarrow> (string \<times> rat \<times> rat) list \<Rightarrow>
   collector \<times> io \<Rightarrow> (collector \<times> io) outcome" where
  "run_states net rnd cfg zone [] st = Returned st"
| "run_states net rnd cfg zone (entry # rest) st =
     (case state_step net rnd cfg zone entry st of
        Raised e \<Rightarrow> Raised e
      | Returned st1 \<Rightarrow> run_states net rnd cfg zone rest st1)"

fun run_zones ::
  "network \<Rightarrow> (nat \<Rightarrow> draws) \<Rightarrow> config \<Rightarrow> (string \<times> (string \<times> rat \<times> rat) list) list \<Rightarrow>
   collector \<times> io \<Rightarrow> (collector \<times> io) outcome" where
  "run_zones net rnd cfg [] st = Returned st"
| "run_zones net rnd cfg (z # zs) st =
     (case run_states net rnd cfg (fst z) (snd z) st of
        Raised e \<Rightarrow> Raised e
      | Returned st1 \<Rightarrow> run_zones net rnd cfg zs st1)"

text \<open>
  After the loops: \<^verbatim>\<open>if all_temperature_data:\<close> the three lists are concatenated into the
  master tables (and written out); otherwise the triple of \<^verbatim>\<open>None\<close> is returned, here
  \<open>None\<close>.
\<close>

definition master_tables ::
  "collector \<Rightarrow> (temp_row list \<times> rain_row list \<times> humid_row list) option" where
  "master_tables c =
     (if all_temperature_data c \<noteq> [] then
        Some (concat (all_temperature_data c), concat (all_rainfall_data c),
              concat (all_humidity_data c))
      else None)"

definition collect_all_nasa_climate_data ::
  "network \<Rightarrow> (nat \<Rightarrow> draws) \<Rightarrow> config \<Rightarrow> io \<Rightarrow>
   (temp_row list \<times> rain_row list \<times> humid_row list) option outcome" where
  "collect_all_nasa_climate_data net rnd cfg s =
     (case run_zones net rnd cfg (ZONES cfg) (empty_collector, s) of
        Raised e \<Rightarrow> Raised e
      | Returned (c, s1) \<Rightarrow> Returned (master_tables c))"

section \<open>Invariants, specification-side notions and sample data\<close>

definition wf_data :: "all_data \<Rightarrow> bool" where
  "wf_data a =
     (distinct (dates a) \<and> length (temps_avg a) = length (dates a) \<and>
      length (temps_max a) = length (dates a) \<and> length (temps_min a) = length (dates a) \<and>
      length (rainfall a) = length (dates a) \<and> length (humidity a) = length (dates a))"

datatype variable = AvgTemp | MaxTemp | MinTemp | Precip | Humidity

fun drop_variable :: "variable \<Rightarrow> nat \<Rightarrow> all_data \<Rightarrow> all_data" where
  "drop_variable AvgTemp i a = a\<lparr>temps_avg := (temps_avg a)[i := []]\<rparr>"
| "drop_variable MaxTemp i a = a\<lparr>temps_max := (temps_max a)[i := []]\<rparr>"
| "drop_variable MinTemp i a = a\<lparr>temps_min := (temps_min a)[i := []]\<rparr>"
| "drop_variable Precip i a = a\<lparr>rainfall := (rainfall a)[i := []]\<rparr>"
| "drop_variable Humidity i a = a\<lparr>humidity := (humidity a)[i := []]\<rparr>"

definition net_down :: network where
  "net_down n = None"

definition io0 :: io where
  "io0 = \<lparr>nreq = 0, trace = []\<rparr>"

definition t2m_items :: "properties \<Rightarrow> day_map" where
  "t2m_items props = (case props ''T2M'' of None \<Rightarrow> [] | Some items \<Rightarrow> items)"

definition minmax_consistent :: "properties \<Rightarrow> string \<times> rat \<Rightarrow> bool" where
  "minmax_consistent props item =
     (case lookup props ''T2M_MAX'' (fst item) of None \<Rightarrow> True
      | Some hi \<Rightarrow>
     (case lookup props ''T2M_MIN'' (fst item) of None \<Rightarrow> True
      | Some lo \<Rightarrow> lo \<le> hi))"

definition chunk_consistent :: "properties \<Rightarrow> bool" where
  "chunk_consistent props =
     list_all (\<lambda>item. parse_day (fst item) \<noteq> None \<longrightarrow> minmax_consistent props item)
              (t2m_items props)"

definition mins_covered :: "all_data \<Rightarrow> bool" where
  "mins_covered a =
     (\<forall>i < length (dates a). \<forall>lo \<in> set (temps_min a ! i).
        \<exists>hi \<in> set (temps_max a ! i). lo \<le> hi)"

definition chunk_jan3 :: properties where
  "chunk_jan3 = map_of
     [(''T2M'', [(''20200101'', 30), (''20200102'', 32), (''20200103'', 34)]),
      (''T2M_MAX'', [(''20200101'', 35), (''20200102'', 36), (''20200103'', 37)]),
      (''T2M_MIN'', [(''20200101'', 25), (''20200102'', 26), (''20200103'', 27)]),
      (''PRECTOTCORR'', [(''20200101'', 1), (''20200102'', 2), (''20200103'', 3)]),
      (''RH2M'', [(''20200101'', 50), (''20200102'', 60), (''20200103'', 71)])]"

definition net_jan3 :: network where
  "net_jan3 n = Some chunk_jan3"

definition chunk_partial :: properties where
  "chunk_partial = map_of
     [(''T2M'', [(''20200101'', 20), (''20200102'', 40)]),
      (''T2M_MAX'', [(''20200101'', 25)]),
      (''T2M_MIN'', [(''20200101'', 15), (''20200102'', 35)]),
      (''PRECTOTCORR'', [(''20200101'', 1), (''20200102'', 2)]),
      (''RH2M'', [(''20200101'', 50), (''20200102'', 60)])]"

definition chunk_inverted :: properties where
  "chunk_inverted = map_of
     [(''T2M'', [(''20200101'', 50)]),
      (''T2M_MAX'', [(''20200101'', 10)]),
      (''T2M_MIN'', [(''20200101'', 0)]),
      (''PRECTOTCORR'', [(''20200101'', 1)]),
      (''RH2M'', [(''20200101'', 50)])]"

definition net_inverted :: network where
  "net_inverted n = Some chunk_inverted"

definition data_jan3 :: all_data where
  "data_jan3 =
     \<lparr>dates = [(2020, 1)], temps_avg = [[30, 32, 34]], temps_max = [[35, 36, 37]],
      temps_min = [[25, 26, 27]], rainfall = [[1, 2, 3]], humidity = [[50, 60, 71]]\<rparr>"

definition kaduna_jan3 :: monthly where
  "kaduna_jan3 = \<lparr>Date = (2020, 1), Avg_Temp_C = 32, Max_Temp_C = 37, Min_Temp_C = 25,
                   Rainfall_mm = 6, Humidity_Percent = 603 / 10\<rparr>"

definition baseline_mm :: "rain_row list \<Rightarrow> rain_row \<Rightarrow> rat" where
  "baseline_mm rows row =
     np_mean (map r_Rainfall_mm
                  (filter (\<lambda>q. r_State q = r_State row \<and> r_Month q = r_Month row) rows))"

definition spec_flood_risk :: "rat \<Rightarrow> rat \<Rightarrow> rat \<Rightarrow> rat" where
  "spec_flood_risk max_daily rain baseline =
     py_round (clip 0 1 ((max_daily / max rain 1) * (rain / baseline))) 3"

definition draws_fixed :: draws where
  "draws_fixed = \<lparr>heat_draw = (\<lambda>j. 3), share_draw = (\<lambda>j. 4 / 10),
                   below_draw = (\<lambda>j. 15), above_draw = (\<lambda>j. 12)\<rparr>"

definition month_with_rain :: "int \<Rightarrow> int \<Rightarrow> rat \<Rightarrow> monthly" where
  "month_with_rain y m rain =
     \<lparr>Date = (y, m), Avg_Temp_C = 27, Max_Temp_C = 33, Min_Temp_C = 21,
      Rainfall_mm = rain, Humidity_Percent = 40\<rparr>"

definition df_dry :: "monthly list" where
  "df_dry = [month_with_rain 2020 1 0, month_with_rain 2021 1 0]"

definition df_shortfall :: "monthly list" where
  "df_shortfall = [month_with_rain 2020 1 0, month_with_rain 2021 1 100]"

definition df_light :: "monthly list" where
  "df_light = [month_with_rain 2020 1 (1 / 2)]"






definition total_states :: "config \<Rightarrow> nat" where
  "total_states cfg = sum_list (map (\<lambda>z. length (snd z)) (ZONES cfg))"

definition tally :: "collector \<Rightarrow> bool" where
  "tally c =
     (length (all_temperature_data c) + length (failed_states c) = current_state c \<and>
      length (all_rainfall_data c) = length (all_temperature_data c) \<and>
      length (all_humidity_data c) = length (all_temperature_data c))"

definition cfg_small :: config where
  "cfg_small = \<lparr>ZONES = [(''North-West'', [(''Kaduna'', 1052 / 100, 744 / 100),
                                             (''Kano'', 12, 852 / 100)])],
                 START_YEAR = 2020, END_YEAR = 2020\<rparr>"

definition net_first_down :: network where
  "net_first_down n = (if n < 3 then None else Some chunk_jan3)"

definition rnd_fixed :: "nat \<Rightarrow> draws" where
  "rnd_fixed k = draws_fixed"

definition chunk_no_rain :: properties where
  "chunk_no_rain = map_of
     [(''T2M'', [(''20200101'', 30), (''20200102'', 32), (''20200103'', 34)]),
      (''T2M_MAX'', [(''20200101'', 35), (''20200102'', 36), (''20200103'', 37)]),
      (''T2M_MIN'', [(''20200101'', 25), (''20200102'', 26), (''20200103'', 27)]),
      (''RH2M'', [(''20200101'', 50), (''20200102'', 60), (''20200103'', 71)])]"

definition net_no_rain_first :: network where
  "net_no_rain_first n = (if n = 0 then Some chunk_no_rain else Some chunk_jan3)"

section \<open>Properties\<close>

lemma rint_of_int: "rint (of_int k) = k"
  by (simp add: rint_def)

lemma rint_ge_floor: "\<lfloor>x\<rfloor> \<le> rint x"
  by (simp add: rint_def Let_def)

lemma rint_le_floor_Suc: "rint x \<le> \<lfloor>x\<rfloor> + 1"
  by (simp add: rint_def Let_def)

lemma rint_mono: assumes "x \<le> y" shows "rint x \<le> rint y"
proof (cases "\<lfloor>x\<rfloor> = \<lfloor>y\<rfloor>")
  case True
  with assms show ?thesis by (auto simp: rint_def Let_def)
next
  case False
  with assms have "\<lfloor>x\<rfloor> < \<lfloor>y\<rfloor>" using floor_mono [OF assms] by linarith
  then have "rint x \<le> \<lfloor>y\<rfloor>" using rint_le_floor_Suc [of x] by linarith
  then show ?thesis using rint_ge_floor [of y] by linarith
qed

lemma py_round_mono: "x \<le> y \<Longrightarrow> py_round x n \<le> py_round y n"
  unfolding py_round_def
  by (intro divide_right_mono) (auto intro!: rint_mono mult_right_mono)

lemma py_round_of_int: "py_round (of_int k) n = of_int k"
proof -
  have "(of_int k :: rat) * 10 ^ n = of_int (k * 10 ^ n)" by simp
  then have "rint (of_int k * 10 ^ n) = k * 10 ^ n" by (simp only: rint_of_int)
  then show ?thesis by (simp add: py_round_def)
qed

lemma py_round_0: "py_round 0 n = 0"
  using py_round_of_int [of 0 n] by simp

lemma py_round_1: "py_round 1 n = 1"
  using py_round_of_int [of 1 n] by simp

lemma py_round_unit: "0 \<le> x \<Longrightarrow> x \<le> 1 \<Longrightarrow> 0 \<le> py_round x n \<and> py_round x n \<le> 1"
  using py_round_mono [of 0 x n] py_round_mono [of x 1 n] by (simp add: py_round_0 py_round_1)

lemma py_round_coarser: assumes "m \<le> n" shows "py_round (py_round x m) n = py_round x m"
proof -
  obtain d where n: "n = m + d" using assms by (auto simp: le_iff_add)
  define k where "k = rint (x * 10 ^ m)"
  have "py_round x m * 10 ^ n = of_int (k * 10 ^ d)"
    by (simp add: py_round_def k_def n power_add)
  then have "rint (py_round x m * 10 ^ n) = k * 10 ^ d" by (simp only: rint_of_int)
  then show ?thesis by (simp add: py_round_def k_def n power_add)
qed

lemma clip_unit: "0 \<le> clip 0 1 x \<and> clip 0 1 x \<le> 1"
  by (simp add: clip_def)

lemma wf_empty: "wf_data empty_data"
  by (simp add: wf_data_def empty_data_def)

lemma wf_ensure_key: "wf_data a \<Longrightarrow> wf_data (ensure_key k a)"
  by (simp add: wf_data_def ensure_key_def)

lemma length_append_at: "length (append_at i v xss) = length xss"
  by (simp add: append_at_def)

lemma dates_process_day_cases:
  "process_day props item a = a \<or>
   (\<exists>k. dates (process_day props item a) = dates (ensure_key k a))"
  by (auto simp: process_day_def Let_def split: option.splits)

lemma wf_process_day: "wf_data a \<Longrightarrow> wf_data (process_day props item a)"
proof -
  assume wf: "wf_data a"
  show ?thesis
  proof (cases "parse_day (fst item)")
    case None
    then show ?thesis using wf by (simp add: process_day_def)
  next
    case (Some k)
    have "wf_data (ensure_key k a)" using wf by (rule wf_ensure_key)
    then show ?thesis using Some
      by (auto simp: process_day_def Let_def wf_data_def length_append_at split: option.splits)
  qed
qed

lemma wf_fold_days: "wf_data a \<Longrightarrow> wf_data (fold (process_day props) items a)"
  by (induction items arbitrary: a) (simp_all add: wf_process_day)

lemma wf_process_chunk: "wf_data a \<Longrightarrow> wf_data (process_chunk props a)"
  by (simp add: process_chunk_def wf_fold_days split: option.splits)

lemma wf_chunk_step:
  "wf_data (fst st) \<Longrightarrow> wf_data (fst (chunk_step net lat lon ey y st))"
  by (cases st) (auto simp: chunk_step_def Let_def wf_process_chunk split: prod.splits option.splits)

lemma wf_chunk_loop:
  "wf_data (fst st) \<Longrightarrow> wf_data (fst (chunk_loop net lat lon ey years st))"
  unfolding chunk_loop_def
  by (induction years arbitrary: st) (simp_all add: wf_chunk_step)

lemma wf_accumulate:
  "accumulate net lat lon sy ey s = (a, ok, s1) \<Longrightarrow> wf_data a"
  using wf_chunk_loop [of "(empty_data, True, s)" net lat lon ey "py_range2 sy (ey + 1)"]
  by (simp add: accumulate_def wf_empty)

lemma Date_month_record: "Date (month_record a i) = dates a ! i"
  by (simp add: month_record_def)

lemma month_in_output_iff:
  assumes "distinct (dates a)" "i < length (dates a)"
  shows "(dates a ! i \<in> Date ` set (monthly_data a)) = all_five a i"
proof
  assume "dates a ! i \<in> Date ` set (monthly_data a)"
  then obtain j where j: "j < length (dates a)" "all_five a j" "dates a ! j = dates a ! i"
    by (auto simp: monthly_data_def Date_month_record)
  then have "j = i" using assms by (simp add: nth_eq_iff_index_eq)
  then show "all_five a i" using j by simp
next
  assume "all_five a i"
  then have "month_record a i \<in> set (monthly_data a)"
    using assms by (simp add: monthly_data_def)
  then show "dates a ! i \<in> Date ` set (monthly_data a)"
    by (metis Date_month_record imageI)
qed

lemma set_sort_by_date: "set (sort_by_date rows) = set rows"
  by (simp add: sort_by_date_def)

lemma finish_set: "finish a = Returned (Some df) \<Longrightarrow> set df = set (monthly_data a)"
  by (auto simp: finish_def Let_def set_sort_by_date split: if_splits)

lemma all_five_drop_same:
  "i < length (dates a) \<Longrightarrow> wf_data a \<Longrightarrow> \<not> all_five (drop_variable v i a) i"
  by (cases v) (simp_all add: all_five_def wf_data_def)

lemma all_five_drop_other:
  "j \<noteq> i \<Longrightarrow> all_five (drop_variable v i a) j = all_five a j"
  by (cases v) (simp_all add: all_five_def)

lemma month_record_drop_other:
  "j \<noteq> i \<Longrightarrow> month_record (drop_variable v i a) j = month_record a j"
  by (cases v) (simp_all add: month_record_def)

lemma dates_drop: "dates (drop_variable v i a) = dates a"
  by (cases v) simp_all

lemma monthly_data_drop:
  assumes wf: "wf_data a" and i: "i < length (dates a)"
  shows "monthly_data (drop_variable v i a) =
         filter (\<lambda>r. Date r \<noteq> dates a ! i) (monthly_data a)"
proof -
  have d: "distinct (dates a)" using wf by (simp add: wf_data_def)
  have neq: "\<And>j. j < length (dates a) \<Longrightarrow> (dates a ! j \<noteq> dates a ! i) = (j \<noteq> i)"
    using d i by (simp add: nth_eq_iff_index_eq)
  have "filter (all_five (drop_variable v i a)) [0..<length (dates a)] =
        filter (\<lambda>j. j \<noteq> i \<and> all_five a j) [0..<length (dates a)]"
  proof (intro filter_cong refl)
    fix j
    show "all_five (drop_variable v i a) j = (j \<noteq> i \<and> all_five a j)"
      using all_five_drop_same [OF i wf, of v] all_five_drop_other [of j i v a]
      by (cases "j = i") simp_all
  qed
  then have "monthly_data (drop_variable v i a) =
        map (month_record a) (filter (\<lambda>j. j \<noteq> i \<and> all_five a j) [0..<length (dates a)])"
    by (auto simp: monthly_data_def dates_drop month_record_drop_other)
  also have "\<dots> = filter (\<lambda>r. Date r \<noteq> dates a ! i) (monthly_data a)"
  proof -
    have "filter (\<lambda>j. j \<noteq> i \<and> all_five a j) [0..<length (dates a)] =
          filter (\<lambda>j. dates a ! j \<noteq> dates a ! i \<and> all_five a j) [0..<length (dates a)]"
      by (rule filter_cong) (simp_all add: neq)
    then show ?thesis
      by (simp add: monthly_data_def filter_map o_def Date_month_record conj_commute)
  qed
  finally show ?thesis .
qed

text \<open>
  Claim C3.  Let \<open>a\<close> be the lists a call of the fetcher has accumulated and \<open>i\<close> one of
  its months.  The month is in the aggregated rows, and in the table the fetcher returns,
  exactly when all five of its lists are non-empty.  Emptying the list of any one
  variable for that month removes the month's row and leaves every other row as it was.
\<close>

theorem C3_month_present_iff_all_five:
  assumes "accumulate net lat lon start_year end_year s = (a, ok, s1)"
      and "i < length (dates a)"
  shows "((dates a ! i \<in> Date ` set (monthly_data a)) = all_five a i) \<and>
         (\<forall>df. finish a = Returned (Some df) \<longrightarrow>
               (dates a ! i \<in> Date ` set df) = all_five a i) \<and>
         (\<forall>v. monthly_data (drop_variable v i a) =
               filter (\<lambda>r. Date r \<noteq> dates a ! i) (monthly_data a))"
proof -
  have wf: "wf_data a" using assms(1) by (rule wf_accumulate)
  then have d: "distinct (dates a)" by (simp add: wf_data_def)
  have iff: "(dates a ! i \<in> Date ` set (monthly_data a)) = all_five a i"
    using d assms(2) by (rule month_in_output_iff)
  moreover have "\<forall>df. finish a = Returned (Some df) \<longrightarrow>
      (dates a ! i \<in> Date ` set df) = all_five a i"
    using iff finish_set by metis
  moreover have "\<forall>v. monthly_data (drop_variable v i a) =
      filter (\<lambda>r. Date r \<noteq> dates a ! i) (monthly_data a)"
    using monthly_data_drop [OF wf assms(2)] by simp
  ultimately show ?thesis by simp
qed

lemma range3: "[0..<3] = [0, Suc 0, 2]"
  by (simp add: upt_rec)

lemma attempts_closed_form:
  "attempts net lat lon ys ye [0..<3] s =
     (case net (nreq s) of
        Some d \<Rightarrow> (Some d, \<lparr>nreq = nreq s + 1, trace = trace s @ [Request lat lon ys ye]\<rparr>)
      | None \<Rightarrow>
     (case net (nreq s + 1) of
        Some d \<Rightarrow> (Some d, \<lparr>nreq = nreq s + 2,
                     trace = trace s @ [Request lat lon ys ye, Sleep 10, Request lat lon ys ye]\<rparr>)
      | None \<Rightarrow>
        (net (nreq s + 2),
         \<lparr>nreq = nreq s + 3,
          trace = trace s @ [Request lat lon ys ye, Sleep 10, Request lat lon ys ye,
                             Sleep 20, Request lat lon ys ye]\<rparr>)))"
  by (cases "net (nreq s + 2)")
     (simp_all add: range3 try_request_def sleep_def split: option.splits)

text \<open>
  Claim C2.  A chunk is requested at most three times.  The first response ends the
  attempts; a failed first attempt is followed by a sleep of 10 seconds and a failed
  second attempt by a sleep of 20 seconds (ten times the number of the attempt that
  failed).  When all three attempts fail, the chunk is marked failed: the accumulated
  lists are unchanged, the flag is cleared, and the loop goes on with the next chunk.
\<close>

theorem C2_three_attempts_linear_backoff:
  "attempts net lat lon ys ye [0..<3] s =
     (case net (nreq s) of
        Some d \<Rightarrow> (Some d, \<lparr>nreq = nreq s + 1, trace = trace s @ [Request lat lon ys ye]\<rparr>)
      | None \<Rightarrow>
     (case net (nreq s + 1) of
        Some d \<Rightarrow> (Some d, \<lparr>nreq = nreq s + 2,
                     trace = trace s @ [Request lat lon ys ye, Sleep 10, Request lat lon ys ye]\<rparr>)
      | None \<Rightarrow>
        (net (nreq s + 2),
         \<lparr>nreq = nreq s + 3,
          trace = trace s @ [Request lat lon ys ye, Sleep 10, Request lat lon ys ye,
                             Sleep 20, Request lat lon ys ye]\<rparr>))) \<and>
   (net (nreq s) = None \<and> net (nreq s + 1) = None \<and> net (nreq s + 2) = None \<longrightarrow>
      chunk_loop net lat lon end_year (ys # years) (a, ok, s) =
      chunk_loop net lat lon end_year years
        (a, False,
         \<lparr>nreq = nreq s + 3,
          trace = trace s @
            [Request lat lon ys (min (ys + 2 - 1) end_year), Sleep 10,
             Request lat lon ys (min (ys + 2 - 1) end_year), Sleep 20,
             Request lat lon ys (min (ys + 2 - 1) end_year)]\<rparr>))"
proof (intro conjI impI)
  show "attempts net lat lon ys ye [0..<3] s =
     (case net (nreq s) of
        Some d \<Rightarrow> (Some d, \<lparr>nreq = nreq s + 1, trace = trace s @ [Request lat lon ys ye]\<rparr>)
      | None \<Rightarrow>
     (case net (nreq s + 1) of
        Some d \<Rightarrow> (Some d, \<lparr>nreq = nreq s + 2,
                     trace = trace s @ [Request lat lon ys ye, Sleep 10, Request lat lon ys ye]\<rparr>)
      | None \<Rightarrow>
        (net (nreq s + 2),
         \<lparr>nreq = nreq s + 3,
          trace = trace s @ [Request lat lon ys ye, Sleep 10, Request lat lon ys ye,
                             Sleep 20, Request lat lon ys ye]\<rparr>)))"
    by (rule attempts_closed_form)
next
  assume fail: "net (nreq s) = None \<and> net (nreq s + 1) = None \<and> net (nreq s + 2) = None"
  show "chunk_loop net lat lon end_year (ys # years) (a, ok, s) =
      chunk_loop net lat lon end_year years
        (a, False,
         \<lparr>nreq = nreq s + 3,
          trace = trace s @
            [Request lat lon ys (min (ys + 2 - 1) end_year), Sleep 10,
             Request lat lon ys (min (ys + 2 - 1) end_year), Sleep 20,
             Request lat lon ys (min (ys + 2 - 1) end_year)]\<rparr>)"
    using fail
    by (simp add: chunk_loop_def chunk_step_def Let_def attempts_closed_form
             del: upt_Suc)
qed

text \<open>
  The service is down for the whole of one chunk: three requests, sleeps of 10 and 20
  seconds between them, nothing accumulated.
\<close>

theorem C2_witness:
  "(net_down (nreq io0) = None \<and> net_down (nreq io0 + 1) = None \<and> net_down (nreq io0 + 2) = None) \<and>
   attempts net_down 1 2 2020 2021 [0..<3] io0 =
     (None, \<lparr>nreq = 3, trace = [Request 1 2 2020 2021, Sleep 10, Request 1 2 2020 2021,
                                 Sleep 20, Request 1 2 2020 2021]\<rparr>) \<and>
   chunk_loop net_down 1 2 2021 [2020] (empty_data, True, io0) =
     (empty_data, False,
      \<lparr>nreq = 3, trace = [Request 1 2 2020 2021, Sleep 10, Request 1 2 2020 2021,
                          Sleep 20, Request 1 2 2020 2021]\<rparr>)"
  using C2_three_attempts_linear_backoff
          [of net_down 1 2 2020 2021 io0 2021 "[]" empty_data True]
  by (simp add: net_down_def io0_def chunk_loop_def)

lemma process_chunk_fold: "process_chunk props a = fold (process_day props) (t2m_items props) a"
  by (simp add: process_chunk_def t2m_items_def split: option.splits)

lemma nth_append_at:
  "i < length xss \<Longrightarrow> append_at idx v xss ! i = (if i = idx then xss ! i @ [v] else xss ! i)"
  by (simp add: append_at_def nth_list_update)

lemma covered_empty: "mins_covered empty_data"
  by (simp add: mins_covered_def empty_data_def)

lemma covered_ensure_key:
  assumes "wf_data a" "mins_covered a"
  shows "mins_covered (ensure_key k a)"
proof (cases "k \<in> set (dates a)")
  case True
  then show ?thesis using assms by (simp add: ensure_key_def)
next
  case False
  have len: "length (temps_max a) = length (dates a)" "length (temps_min a) = length (dates a)"
    using assms(1) by (simp_all add: wf_data_def)
  show ?thesis
    unfolding mins_covered_def
  proof (intro allI impI)
    fix i assume i: "i < length (dates (ensure_key k a))"
    show "\<forall>lo\<in>set (temps_min (ensure_key k a) ! i).
            \<exists>hi\<in>set (temps_max (ensure_key k a) ! i). lo \<le> hi"
    proof (cases "i < length (dates a)")
      case True
      then show ?thesis using assms(2) False len
        by (simp add: ensure_key_def mins_covered_def nth_append)
    next
      case False
      then have "i = length (dates a)" using i \<open>k \<notin> set (dates a)\<close>
        by (simp add: ensure_key_def)
      then show ?thesis using \<open>k \<notin> set (dates a)\<close> len
        by (simp add: ensure_key_def nth_append)
    qed
  qed
qed

text \<open>
  What one turn of the day loop does to the lists of daily maxima and minima of the
  opened bucket: nothing, or a maximum is appended, or a maximum and then a minimum.
\<close>

lemma process_day_minmax:
  assumes "parse_day (fst item) = Some k"
  shows "dates (process_day props item a) = dates (ensure_key k a) \<and>
         ((temps_max (process_day props item a) = temps_max (ensure_key k a) \<and>
           temps_min (process_day props item a) = temps_min (ensure_key k a)) \<or>
          (\<exists>hi. lookup props ''T2M_MAX'' (fst item) = Some hi \<and>
             temps_max (process_day props item a) =
               append_at (index_of k (dates (ensure_key k a))) hi (temps_max (ensure_key k a)) \<and>
             (temps_min (process_day props item a) = temps_min (ensure_key k a) \<or>
              (\<exists>lo. lookup props ''T2M_MIN'' (fst item) = Some lo \<and>
                 temps_min (process_day props item a) =
                   append_at (index_of k (dates (ensure_key k a))) lo
                     (temps_min (ensure_key k a))))))"
  using assms by (simp add: process_day_def Let_def split: option.splits)

lemma covered_process_day:
  assumes wf: "wf_data a" and cv: "mins_covered a"
      and ok: "parse_day (fst item) \<noteq> None \<longrightarrow> minmax_consistent props item"
  shows "mins_covered (process_day props item a)"
proof (cases "parse_day (fst item)")
  case None
  then show ?thesis using cv by (simp add: process_day_def)
next
  case (Some k)
  with ok have mm: "minmax_consistent props item" by simp
  define a0 where "a0 = ensure_key k a"
  define idx where "idx = index_of k (dates a0)"
  define b where "b = process_day props item a"
  have wf0: "wf_data a0" unfolding a0_def using wf by (rule wf_ensure_key)
  have cv0: "mins_covered a0" unfolding a0_def using wf cv by (rule covered_ensure_key)
  have len: "length (temps_max a0) = length (dates a0)" "length (temps_min a0) = length (dates a0)"
    using wf0 by (simp_all add: wf_data_def)
  note pd = process_day_minmax [OF Some, of props a, folded a0_def, folded idx_def, folded b_def]
  have d: "dates b = dates a0" using pd by simp
  have "mins_covered b"
    unfolding mins_covered_def
  proof (intro allI impI ballI)
    fix i lo
    assume i: "i < length (dates b)" and lo: "lo \<in> set (temps_min b ! i)"
    have i0: "i < length (dates a0)" using i d by simp
    have old: "\<And>l. l \<in> set (temps_min a0 ! i) \<Longrightarrow> \<exists>h \<in> set (temps_max a0 ! i). l \<le> h"
      using cv0 i0 by (simp add: mins_covered_def)
    consider
        (same) "temps_max b = temps_max a0" "temps_min b = temps_min a0"
      | (max_only) hi where "temps_max b = append_at idx hi (temps_max a0)"
          "temps_min b = temps_min a0"
      | (both) hi l where "lookup props ''T2M_MAX'' (fst item) = Some hi"
          "lookup props ''T2M_MIN'' (fst item) = Some l"
          "temps_max b = append_at idx hi (temps_max a0)"
          "temps_min b = append_at idx l (temps_min a0)"
      using pd by blast
    then show "\<exists>hi \<in> set (temps_max b ! i). lo \<le> hi"
    proof cases
      case same
      then show ?thesis using old lo by simp
    next
      case max_only
      then have "lo \<in> set (temps_min a0 ! i)" using lo by simp
      then obtain h where "h \<in> set (temps_max a0 ! i)" "lo \<le> h" using old by blast
      then show ?thesis using max_only i0 len by (auto simp: nth_append_at)
    next
      case both
      have le: "l \<le> hi" using mm both(1,2) by (simp add: minmax_consistent_def)
      show ?thesis
      proof (cases "i = idx \<and> lo = l")
        case True
        then show ?thesis using both i0 len le by (auto simp: nth_append_at)
      next
        case False
        then have "lo \<in> set (temps_min a0 ! i)"
          using lo both i0 len by (auto simp: nth_append_at split: if_splits)
        then obtain h where "h \<in> set (temps_max a0 ! i)" "lo \<le> h" using old by blast
        then show ?thesis using both i0 len by (auto simp: nth_append_at)
      qed
    qed
  qed
  then show ?thesis by (simp add: b_def)
qed

lemma covered_fold_days:
  "wf_data a \<Longrightarrow> mins_covered a \<Longrightarrow>
   list_all (\<lambda>item. parse_day (fst item) \<noteq> None \<longrightarrow> minmax_consistent props item) items \<Longrightarrow>
   mins_covered (fold (process_day props) items a)"
  by (induction items arbitrary: a) (simp_all add: wf_process_day covered_process_day)

lemma covered_process_chunk:
  "wf_data a \<Longrightarrow> mins_covered a \<Longrightarrow> chunk_consistent props \<Longrightarrow>
   mins_covered (process_chunk props a)"
  by (simp add: process_chunk_fold chunk_consistent_def covered_fold_days)

lemma attempts_from_net:
  "attempts net lat lon ys ye as s = (Some props, s1) \<Longrightarrow> \<exists>n. net n = Some props"
proof (induction as arbitrary: s)
  case Nil
  then show ?case by simp
next
  case (Cons attempt rest)
  show ?case
  proof (cases "net (nreq s)")
    case None
    then show ?thesis using Cons.prems Cons.IH
      by (auto simp: try_request_def split: if_splits)
  next
    case (Some d)
    then have "d = props" using Cons.prems by (simp add: try_request_def)
    then show ?thesis using Some by blast
  qed
qed

lemma covered_chunk_step:
  assumes "\<forall>n props. net n = Some props \<longrightarrow> chunk_consistent props"
      and "wf_data (fst st)" "mins_covered (fst st)"
  shows "mins_covered (fst (chunk_step net lat lon ey y st))"
proof -
  obtain a ok s where st: "st = (a, ok, s)" by (cases st) auto
  obtain r s1 where at: "attempts net lat lon y (min (y + 2 - 1) ey) [0..<3] s = (r, s1)"
    by (cases "attempts net lat lon y (min (y + 2 - 1) ey) [0..<3] s") auto
  show ?thesis
  proof (cases r)
    case None
    then show ?thesis using at st assms(3) by (simp add: chunk_step_def Let_def del: upt_Suc)
  next
    case (Some props)
    then have "chunk_consistent props" using attempts_from_net at assms(1) by blast
    then show ?thesis using at st Some assms(2,3)
      by (simp add: chunk_step_def Let_def covered_process_chunk del: upt_Suc)
  qed
qed

lemma covered_chunk_loop:
  assumes "\<forall>n props. net n = Some props \<longrightarrow> chunk_consistent props"
  shows "wf_data (fst st) \<Longrightarrow> mins_covered (fst st) \<Longrightarrow>
         mins_covered (fst (chunk_loop net lat lon ey years st))"
  unfolding chunk_loop_def
  by (induction years arbitrary: st) (simp_all add: wf_chunk_step covered_chunk_step [OF assms])

lemma covered_accumulate:
  assumes "\<forall>n props. net n = Some props \<longrightarrow> chunk_consistent props"
      and "accumulate net lat lon sy ey s = (a, ok, s1)"
  shows "mins_covered a"
  using covered_chunk_loop [OF assms(1), of "(empty_data, True, s)" lat lon ey "py_range2 sy (ey + 1)"]
        assms(2)
  by (simp add: accumulate_def wf_empty covered_empty)

lemma month_record_min_le_max:
  assumes "mins_covered a" "i < length (dates a)" "all_five a i"
  shows "Min_Temp_C (month_record a i) \<le> Max_Temp_C (month_record a i)"
proof -
  have "temps_min a ! i \<noteq> []" using assms(3) by (simp add: all_five_def)
  then obtain lo where lo: "lo \<in> set (temps_min a ! i)" by (cases "temps_min a ! i") auto
  then obtain hi where hi: "hi \<in> set (temps_max a ! i)" "lo \<le> hi"
    using assms(1,2) by (auto simp: mins_covered_def)
  have "Min (set (temps_min a ! i)) \<le> lo" using lo by simp
  moreover have "hi \<le> Max (set (temps_max a ! i))" using hi(1) by simp
  ultimately have "np_min (temps_min a ! i) \<le> np_max (temps_max a ! i)"
    using hi(2) by (simp add: np_min_def np_max_def)
  then show ?thesis by (simp add: month_record_def py_round_mono)
qed

text \<open>
  Claim C5, amended.  The three monthly temperatures are aggregated from three separate
  daily series.  If in every response every day of the \<^verbatim>\<open>T2M\<close> map with a valid date
  that has both a daily maximum and a daily minimum has minimum \<open>\<le>\<close> maximum, then
  every row the fetcher returns has \<open>Min_Temp_C \<le> Max_Temp_C\<close>.  Nothing is stated
  about \<open>Avg_Temp_C\<close>: it is the rounded mean of the third series.
\<close>

theorem C5_min_le_max_when_days_consistent:
  assumes "\<forall>n props. net n = Some props \<longrightarrow> chunk_consistent props"
      and "download_nasa_power_data net lat lon start_year end_year s = (Returned (Some df), s1)"
      and "r \<in> set df"
  shows "Min_Temp_C r \<le> Max_Temp_C r"
proof -
  obtain a ok s2 where acc: "accumulate net lat lon start_year end_year s = (a, ok, s2)"
    by (cases "accumulate net lat lon start_year end_year s") auto
  then have fin: "finish a = Returned (Some df)"
    using assms(2) by (simp add: download_nasa_power_data_def)
  have cv: "mins_covered a" using assms(1) acc by (rule covered_accumulate)
  have "r \<in> set (monthly_data a)" using finish_set [OF fin] assms(3) by simp
  then obtain i where "i < length (dates a)" "all_five a i" "r = month_record a i"
    by (auto simp: monthly_data_def)
  then show ?thesis using month_record_min_le_max [OF cv] by simp
qed

text \<open>
  Claim C1 says that a day for which one of the other four variables is missing
  contributes to none of the five lists.  In the response \<open>chunk_partial\<close> the second of
  January has no \<^verbatim>\<open>T2M_MAX\<close>: its average temperature 40 has been appended before the
  look-up raises, so it stays in \<open>temps_avg\<close> and the monthly average is 30, not 20.
\<close>

theorem C1_partial_day_is_kept:
  "process_chunk chunk_partial empty_data =
     \<lparr>dates = [(2020, 1)], temps_avg = [[20, 40]], temps_max = [[25]], temps_min = [[15]],
      rainfall = [[1]], humidity = [[50]]\<rparr> \<and>
   Avg_Temp_C (month_record (process_chunk chunk_partial empty_data) 0) = 30"
  by code_simp

lemma jan3_run:
  "download_nasa_power_data net_jan3 (1052 / 100) (744 / 100) 2020 2020 io0 =
     (Returned (Some [kaduna_jan3]),
      \<lparr>nreq = 1, trace = [Request (1052 / 100) (744 / 100) 2020 2020, Sleep 1]\<rparr>)"
  by code_simp

lemma jan3_accumulate:
  "accumulate net_jan3 (1052 / 100) (744 / 100) 2020 2020 io0 =
     (data_jan3, True,
      \<lparr>nreq = 1, trace = [Request (1052 / 100) (744 / 100) 2020 2020, Sleep 1]\<rparr>)"
  by code_simp

text \<open>
  Claim C5 as stated, over arbitrary daily values, fails: one day with average 50,
  maximum 10 and minimum 0 gives a row whose average exceeds its maximum.
\<close>

theorem C5_counterexample:
  "fst (download_nasa_power_data net_inverted 1 2 2020 2020 io0) =
     Returned (Some [\<lparr>Date = (2020, 1), Avg_Temp_C = 50, Max_Temp_C = 10, Min_Temp_C = 0,
                      Rainfall_mm = 1, Humidity_Percent = 50\<rparr>]) \<and>
   \<not> Avg_Temp_C \<lparr>Date = (2020, 1), Avg_Temp_C = 50, Max_Temp_C = 10, Min_Temp_C = 0,
                  Rainfall_mm = 1, Humidity_Percent = 50\<rparr>
     \<le> Max_Temp_C \<lparr>Date = (2020, 1), Avg_Temp_C = 50, Max_Temp_C = 10, Min_Temp_C = 0,
                    Rainfall_mm = 1, Humidity_Percent = 50\<rparr>"
  by code_simp

lemma jan3_consistent: "\<forall>n props. net_jan3 n = Some props \<longrightarrow> chunk_consistent props"
proof -
  have "chunk_consistent chunk_jan3" by code_simp
  then show ?thesis by (simp add: net_jan3_def)
qed

text \<open>
  The scenario run is consistent, and the minimum of its row is below the maximum.
\<close>

theorem C5_witness:
  "chunk_consistent chunk_jan3 \<and>
   download_nasa_power_data net_jan3 (1052 / 100) (744 / 100) 2020 2020 io0 =
     (Returned (Some [kaduna_jan3]),
      \<lparr>nreq = 1, trace = [Request (1052 / 100) (744 / 100) 2020 2020, Sleep 1]\<rparr>) \<and>
   kaduna_jan3 \<in> set [kaduna_jan3] \<and>
   Min_Temp_C kaduna_jan3 \<le> Max_Temp_C kaduna_jan3"
proof -
  have mem: "kaduna_jan3 \<in> set [kaduna_jan3]" by simp
  have ok: "chunk_consistent chunk_jan3" using jan3_consistent by (simp add: net_jan3_def)
  show ?thesis
    using C5_min_le_max_when_days_consistent [OF jan3_consistent jan3_run mem] ok jan3_run mem
    by blast
qed

text \<open>
  In the scenario run the only month, January 2020, has all five lists and is in the rows.
\<close>

theorem C3_witness:
  "accumulate net_jan3 (1052 / 100) (744 / 100) 2020 2020 io0 =
     (data_jan3, True,
      \<lparr>nreq = 1, trace = [Request (1052 / 100) (744 / 100) 2020 2020, Sleep 1]\<rparr>) \<and>
   0 < length (dates data_jan3) \<and>
   all_five data_jan3 0 \<and>
   dates data_jan3 ! 0 \<in> Date ` set (monthly_data data_jan3) \<and>
   monthly_data (drop_variable Precip 0 data_jan3) = []"
proof -
  have len: "0 < length (dates data_jan3)" by (simp add: data_jan3_def)
  have five: "all_five data_jan3 0" by (simp add: data_jan3_def all_five_def)
  have rows: "monthly_data data_jan3 = [month_record data_jan3 0]"
    using five by (simp add: monthly_data_def data_jan3_def)
  have none: "filter (\<lambda>r. Date r \<noteq> dates data_jan3 ! 0) (monthly_data data_jan3) = []"
    by (simp add: rows Date_month_record)
  note c3 = C3_month_present_iff_all_five [OF jan3_accumulate len]
  have present: "dates data_jan3 ! 0 \<in> Date ` set (monthly_data data_jan3)"
    using c3 five by simp
  have gone: "monthly_data (drop_variable Precip 0 data_jan3) = []"
    using c3 none by (simp del: drop_variable.simps)
  show ?thesis
    by (intro conjI) (rule jan3_accumulate len five present gone)+
qed

lemma rain_rows_mem:
  "row \<in> set (rain_rows zone state dr df) \<Longrightarrow>
   \<exists>j < length df. row = rain_row_of zone state dr df j (df ! j)"
  by (auto simp: rain_rows_def in_set_enumerate_eq)

lemma group_of_rows:
  "map r_Rainfall_mm
     (filter (\<lambda>q. r_State q = state \<and> r_Month q = m)
        (map (\<lambda>(j, r). rain_row_of zone state dr df0 j r) (enumerate n df))) =
   map (\<lambda>q. py_round (Rainfall_mm q) 1) (filter (\<lambda>q. snd (Date q) = m) df)"
  by (induction df arbitrary: n) (simp_all add: rain_row_of_def Let_def)

lemma baseline_is_expected:
  "baseline_mm (rain_rows zone state dr df) (rain_row_of zone state dr df j r) =
   expected_rainfall df r"
proof -
  have st: "r_State (rain_row_of zone state dr df j r) = state"
    and mo: "r_Month (rain_row_of zone state dr df j r) = snd (Date r)"
    by (simp_all add: rain_row_of_def Let_def)
  show ?thesis
    unfolding baseline_mm_def expected_rainfall_def rain_rows_def st mo
    by (simp only: group_of_rows)
qed

lemma rint_0: "rint 0 = 0"
  using rint_of_int [of 0] by simp

lemma rainy_days_nonneg: "0 \<le> rint (clip 0 30 x)"
proof -
  have "(0::rat) \<le> clip 0 30 x" by (simp add: clip_def)
  then have "rint 0 \<le> rint (clip 0 30 x)" by (rule rint_mono)
  then show ?thesis by (simp add: rint_0)
qed

lemma replace01_nonneg_int: "0 \<le> k \<Longrightarrow> replace01 (of_int k) = max (of_int k) 1"
  by (cases "k = 0") (auto simp: replace01_def max_def)

lemma drought_fields:
  "Drought_Index (rain_row_of zone state dr df j r) =
     py_round (clip 0 1 (1 - r_Rainfall_mm (rain_row_of zone state dr df j r) /
                             replace01 (expected_rainfall df r))) 3"
  by (simp add: rain_row_of_def Let_def)

lemma flood_fields:
  "Flood_Risk_Index (rain_row_of zone state dr df j r) =
     py_round (clip 0 1
       ((Max_Daily_Rainfall_mm (rain_row_of zone state dr df j r) /
           replace01 (r_Rainfall_mm (rain_row_of zone state dr df j r))) *
        (r_Rainfall_mm (rain_row_of zone state dr df j r) /
           replace01 (expected_rainfall df r)))) 3"
  by (simp add: rain_row_of_def Let_def)

lemma intensity_fields:
  "Rainfall_Intensity (rain_row_of zone state dr df j r) =
     py_round (r_Rainfall_mm (rain_row_of zone state dr df j r) /
               replace01 (of_int (Rainy_Days (rain_row_of zone state dr df j r)))) 2 \<and>
   0 \<le> Rainy_Days (rain_row_of zone state dr df j r) \<and>
   r_Rainfall_mm (rain_row_of zone state dr df j r) = py_round (Rainfall_mm r) 1"
  by (simp add: rain_row_of_def Let_def rainy_days_nonneg)

text \<open>
  Claim C6, amended.  For every row of a location's rainfall table, with the baseline the
  mean rainfall of the rows of the same state and month of the year, and a baseline of 0
  replaced by 1: the drought index is \<open>round(clip(1 - rainfall / baseline, 0, 1), 3)\<close>, it
  lies in [0, 1], it is 0 when the rainfall equals a baseline other than 0, and it is 1
  for no rainfall against a baseline of 50.
\<close>

theorem C6_drought_index:
  assumes "row \<in> set (rain_rows zone state dr df)"
  shows "Drought_Index row =
           py_round (clip 0 1 (1 - r_Rainfall_mm row /
              (if baseline_mm (rain_rows zone state dr df) row = 0 then 1
               else baseline_mm (rain_rows zone state dr df) row))) 3 \<and>
         0 \<le> Drought_Index row \<and> Drought_Index row \<le> 1 \<and>
         (baseline_mm (rain_rows zone state dr df) row \<noteq> 0 \<and>
          r_Rainfall_mm row = baseline_mm (rain_rows zone state dr df) row \<longrightarrow>
            Drought_Index row = 0) \<and>
         (r_Rainfall_mm row = 0 \<and> baseline_mm (rain_rows zone state dr df) row = 50 \<longrightarrow>
            Drought_Index row = 1)"
proof -
  obtain j where row: "row = rain_row_of zone state dr df j (df ! j)"
    using rain_rows_mem [OF assms] by blast
  define b where "b = baseline_mm (rain_rows zone state dr df) row"
  have b: "expected_rainfall df (df ! j) = b"
    unfolding b_def row by (rule baseline_is_expected [symmetric])
  have di: "Drought_Index row = py_round (clip 0 1 (1 - r_Rainfall_mm row / (if b = 0 then 1 else b))) 3"
    unfolding row drought_fields b by (simp add: replace01_def)
  have rng: "0 \<le> Drought_Index row \<and> Drought_Index row \<le> 1"
    unfolding di using clip_unit py_round_unit by blast
  have eq: "b \<noteq> 0 \<and> r_Rainfall_mm row = b \<longrightarrow> Drought_Index row = 0"
    unfolding di by (simp add: clip_def py_round_0)
  have full: "r_Rainfall_mm row = 0 \<and> b = 50 \<longrightarrow> Drought_Index row = 1"
    unfolding di by (simp add: clip_def py_round_1)
  show ?thesis using di rng eq full unfolding b_def by blast
qed

text \<open>
  Claim C6 as stated fails where the baseline itself is 0: a January without rain in
  both years has rainfall 0 equal to its baseline 0, the baseline is replaced by 1, and
  the drought index is 1 instead of 0.
\<close>

theorem C6_counterexample:
  "r_Rainfall_mm (hd (rain_rows ''North-West'' ''Kano'' draws_fixed df_dry)) =
     baseline_mm (rain_rows ''North-West'' ''Kano'' draws_fixed df_dry)
                 (hd (rain_rows ''North-West'' ''Kano'' draws_fixed df_dry)) \<and>
   Drought_Index (hd (rain_rows ''North-West'' ''Kano'' draws_fixed df_dry)) = 1"
  by code_simp

text \<open>
  The scenario of the claim: no rain in January 2020, 100 mm in January 2021, so a
  baseline of 50 mm and a drought index of 1 for the first row.
\<close>

theorem C6_witness:
  "hd (rain_rows ''North-West'' ''Kano'' draws_fixed df_shortfall)
     \<in> set (rain_rows ''North-West'' ''Kano'' draws_fixed df_shortfall) \<and>
   r_Rainfall_mm (hd (rain_rows ''North-West'' ''Kano'' draws_fixed df_shortfall)) = 0 \<and>
   baseline_mm (rain_rows ''North-West'' ''Kano'' draws_fixed df_shortfall)
               (hd (rain_rows ''North-West'' ''Kano'' draws_fixed df_shortfall)) = 50 \<and>
   Drought_Index (hd (rain_rows ''North-West'' ''Kano'' draws_fixed df_shortfall)) = 1"
proof -
  have mem: "hd (rain_rows ''North-West'' ''Kano'' draws_fixed df_shortfall)
     \<in> set (rain_rows ''North-West'' ''Kano'' draws_fixed df_shortfall)"
    by (simp add: rain_rows_def df_shortfall_def)
  have rain: "r_Rainfall_mm (hd (rain_rows ''North-West'' ''Kano'' draws_fixed df_shortfall)) = 0"
    by code_simp
  have base: "baseline_mm (rain_rows ''North-West'' ''Kano'' draws_fixed df_shortfall)
               (hd (rain_rows ''North-West'' ''Kano'' draws_fixed df_shortfall)) = 50"
    by code_simp
  show ?thesis using C6_drought_index [OF mem] mem rain base by blast
qed

text \<open>
  Claim C7, amended.  For every row of a location's rainfall table the flood-risk index
  is \<open>round(clip((max_daily / d) * (rainfall / baseline), 0, 1), 3)\<close>, where the
  denominator \<open>d\<close> of the concentration is the rainfall with an exact 0 replaced by 1
  and the baseline is as for the drought index; it lies in [0, 1].  It is the value of
  the formula with \<open>max(rainfall, 1)\<close> whenever the rainfall is 0 or at least 1.
\<close>

theorem C7_flood_risk_index:
  assumes "row \<in> set (rain_rows zone state dr df)"
  shows "Flood_Risk_Index row =
           py_round (clip 0 1
             ((Max_Daily_Rainfall_mm row /
                 (if r_Rainfall_mm row = 0 then 1 else r_Rainfall_mm row)) *
              (r_Rainfall_mm row /
                 (if baseline_mm (rain_rows zone state dr df) row = 0 then 1
                  else baseline_mm (rain_rows zone state dr df) row)))) 3 \<and>
         0 \<le> Flood_Risk_Index row \<and> Flood_Risk_Index row \<le> 1 \<and>
         (r_Rainfall_mm row = 0 \<or> 1 \<le> r_Rainfall_mm row \<longrightarrow>
            Flood_Risk_Index row =
              spec_flood_risk (Max_Daily_Rainfall_mm row) (r_Rainfall_mm row)
                (if baseline_mm (rain_rows zone state dr df) row = 0 then 1
                 else baseline_mm (rain_rows zone state dr df) row))"
proof -
  obtain j where row: "row = rain_row_of zone state dr df j (df ! j)"
    using rain_rows_mem [OF assms] by blast
  define b where "b = baseline_mm (rain_rows zone state dr df) row"
  have b: "expected_rainfall df (df ! j) = b"
    unfolding b_def row by (rule baseline_is_expected [symmetric])
  have fr: "Flood_Risk_Index row =
      py_round (clip 0 1
        ((Max_Daily_Rainfall_mm row / (if r_Rainfall_mm row = 0 then 1 else r_Rainfall_mm row)) *
         (r_Rainfall_mm row / (if b = 0 then 1 else b)))) 3"
    unfolding row flood_fields b by (simp add: replace01_def)
  have rng: "0 \<le> Flood_Risk_Index row \<and> Flood_Risk_Index row \<le> 1"
    unfolding fr using clip_unit py_round_unit by blast
  have "r_Rainfall_mm row = 0 \<or> 1 \<le> r_Rainfall_mm row \<Longrightarrow>
      (if r_Rainfall_mm row = 0 then 1 else r_Rainfall_mm row) = max (r_Rainfall_mm row) 1"
    by (auto simp: max_def)
  then have agree: "r_Rainfall_mm row = 0 \<or> 1 \<le> r_Rainfall_mm row \<longrightarrow>
      Flood_Risk_Index row =
        spec_flood_risk (Max_Daily_Rainfall_mm row) (r_Rainfall_mm row) (if b = 0 then 1 else b)"
    unfolding fr spec_flood_risk_def by presburger
  show ?thesis using fr rng agree unfolding b_def by blast
qed

text \<open>
  Claim C7 as stated, with the denominator \<open>max(rainfall, 1)\<close>, fails for a rainfall
  strictly between 0 and 1: with 0.5 mm in the month, an estimated daily maximum of
  0.2 mm and a baseline of 0.5 mm the code gives 0.4 and the formula of the claim 0.2.
\<close>

theorem C7_counterexample:
  "r_Rainfall_mm (hd (rain_rows ''North-West'' ''Kano'' draws_fixed df_light)) = 1 / 2 \<and>
   Max_Daily_Rainfall_mm (hd (rain_rows ''North-West'' ''Kano'' draws_fixed df_light)) = 1 / 5 \<and>
   baseline_mm (rain_rows ''North-West'' ''Kano'' draws_fixed df_light)
               (hd (rain_rows ''North-West'' ''Kano'' draws_fixed df_light)) = 1 / 2 \<and>
   Flood_Risk_Index (hd (rain_rows ''North-West'' ''Kano'' draws_fixed df_light)) = 2 / 5 \<and>
   spec_flood_risk (1 / 5) (1 / 2) (1 / 2) = 1 / 5"
  by code_simp

text \<open>
  January 2021 of the shortfall table: 100 mm, an estimated daily maximum of 40 mm and a
  baseline of 50 mm give a flood-risk index of 0.8, as the formula with the maximum does.
\<close>

theorem C7_witness:
  "last (rain_rows ''North-West'' ''Kano'' draws_fixed df_shortfall)
     \<in> set (rain_rows ''North-West'' ''Kano'' draws_fixed df_shortfall) \<and>
   1 \<le> r_Rainfall_mm (last (rain_rows ''North-West'' ''Kano'' draws_fixed df_shortfall)) \<and>
   0 \<le> Flood_Risk_Index (last (rain_rows ''North-West'' ''Kano'' draws_fixed df_shortfall)) \<and>
   Flood_Risk_Index (last (rain_rows ''North-West'' ''Kano'' draws_fixed df_shortfall)) \<le> 1 \<and>
   Flood_Risk_Index (last (rain_rows ''North-West'' ''Kano'' draws_fixed df_shortfall)) = 4 / 5"
proof -
  have mem: "last (rain_rows ''North-West'' ''Kano'' draws_fixed df_shortfall)
     \<in> set (rain_rows ''North-West'' ''Kano'' draws_fixed df_shortfall)"
    by (simp add: rain_rows_def df_shortfall_def)
  have rain: "1 \<le> r_Rainfall_mm (last (rain_rows ''North-West'' ''Kano'' draws_fixed df_shortfall))"
    by code_simp
  have val: "Flood_Risk_Index (last (rain_rows ''North-West'' ''Kano'' draws_fixed df_shortfall)) = 4 / 5"
    by code_simp
  show ?thesis using C7_flood_risk_index [OF mem] mem rain val by blast
qed

text \<open>
  Claim C8.  For every row of a location's rainfall table the rainfall intensity is
  \<open>round(rainfall / max(rainy_days, 1), 2)\<close>: the count of rainy days is never negative,
  so replacing a 0 by 1 is taking the maximum with 1, and the divisor is at least 1.
  A row with no rainy day has an intensity equal to its rainfall (which is already
  rounded to one decimal).
\<close>

theorem C8_rainfall_intensity:
  assumes "row \<in> set (rain_rows zone state dr df)"
  shows "Rainfall_Intensity row =
           py_round (r_Rainfall_mm row / max (of_int (Rainy_Days row)) 1) 2 \<and>
         (1::rat) \<le> max (of_int (Rainy_Days row)) 1 \<and>
         (Rainy_Days row = 0 \<longrightarrow> Rainfall_Intensity row = r_Rainfall_mm row)"
proof -
  obtain j where row: "row = rain_row_of zone state dr df j (df ! j)"
    using rain_rows_mem [OF assms] by blast
  note f = intensity_fields [of zone state dr df j "df ! j", folded row]
  have ri: "Rainfall_Intensity row = py_round (r_Rainfall_mm row / max (of_int (Rainy_Days row)) 1) 2"
    using f replace01_nonneg_int [of "Rainy_Days row"] by simp
  have "Rainy_Days row = 0 \<longrightarrow> Rainfall_Intensity row = r_Rainfall_mm row"
  proof
    assume z: "Rainy_Days row = 0"
    have "Rainfall_Intensity row = py_round (py_round (Rainfall_mm (df ! j)) 1) 2"
      using ri z f by simp
    also have "\<dots> = py_round (Rainfall_mm (df ! j)) 1"
      by (rule py_round_coarser) simp
    finally show "Rainfall_Intensity row = r_Rainfall_mm row" using f by simp
  qed
  then show ?thesis using ri by simp
qed

text \<open>
  A month with 0.5 mm of rain has no rainy day, and its intensity is 0.5.
\<close>

theorem C8_witness:
  "hd (rain_rows ''North-West'' ''Kano'' draws_fixed df_light)
     \<in> set (rain_rows ''North-West'' ''Kano'' draws_fixed df_light) \<and>
   Rainy_Days (hd (rain_rows ''North-West'' ''Kano'' draws_fixed df_light)) = 0 \<and>
   r_Rainfall_mm (hd (rain_rows ''North-West'' ''Kano'' draws_fixed df_light)) = 1 / 2 \<and>
   Rainfall_Intensity (hd (rain_rows ''North-West'' ''Kano'' draws_fixed df_light)) = 1 / 2"
proof -
  have mem: "hd (rain_rows ''North-West'' ''Kano'' draws_fixed df_light)
     \<in> set (rain_rows ''North-West'' ''Kano'' draws_fixed df_light)"
    by (simp add: rain_rows_def df_light_def)
  have days: "Rainy_Days (hd (rain_rows ''North-West'' ''Kano'' draws_fixed df_light)) = 0"
    by code_simp
  have rain: "r_Rainfall_mm (hd (rain_rows ''North-West'' ''Kano'' draws_fixed df_light)) = 1 / 2"
    by code_simp
  show ?thesis using C8_rainfall_intensity [OF mem] mem days rain by simp
qed






lemma state_step_no_data:
  assumes "download_nasa_power_data net lat lon (START_YEAR cfg) (END_YEAR cfg) s =
             (Returned None, s1)"
  shows "state_step net rnd cfg zone (state, lat, lon) (c, s) =
           Returned (c\<lparr>current_state := current_state c + 1,
                       failed_states := failed_states c @ [state]\<rparr>, sleep 3 s1)"
  using assms by (simp add: state_step_def Let_def)

lemma state_step_tally:
  assumes "state_step net rnd cfg zone entry (c, s) = Returned (c1, s1)" and "tally c"
  shows "tally c1 \<and> current_state c1 = current_state c + 1"
proof -
  obtain state lat lon where e: "entry = (state, lat, lon)" by (cases entry) auto
  obtain res s2 where d: "download_nasa_power_data net lat lon (START_YEAR cfg) (END_YEAR cfg) s = (res, s2)"
    by (cases "download_nasa_power_data net lat lon (START_YEAR cfg) (END_YEAR cfg) s") auto
  show ?thesis
    using assms d unfolding e
    by (auto simp: state_step_def Let_def tally_def split: outcome.splits option.splits if_splits)
qed

lemma run_states_tally:
  "run_states net rnd cfg zone entries (c, s) = Returned (c1, s1) \<Longrightarrow> tally c \<Longrightarrow>
   tally c1 \<and> current_state c1 = current_state c + length entries"
proof (induction entries arbitrary: c s)
  case Nil
  then show ?case by simp
next
  case (Cons entry rest)
  from Cons.prems(1) obtain c2 s2 where
    step: "state_step net rnd cfg zone entry (c, s) = Returned (c2, s2)" and
    rest: "run_states net rnd cfg zone rest (c2, s2) = Returned (c1, s1)"
    by (auto split: outcome.splits)
  have t2: "tally c2 \<and> current_state c2 = current_state c + 1"
    using step Cons.prems(2) by (rule state_step_tally)
  then show ?case using Cons.IH [OF rest] by simp
qed

lemma run_zones_tally:
  "run_zones net rnd cfg zs (c, s) = Returned (c1, s1) \<Longrightarrow> tally c \<Longrightarrow>
   tally c1 \<and> current_state c1 = current_state c + sum_list (map (\<lambda>z. length (snd z)) zs)"
proof (induction zs arbitrary: c s)
  case Nil
  then show ?case by simp
next
  case (Cons z zs)
  from Cons.prems(1) obtain c2 s2 where
    inner: "run_states net rnd cfg (fst z) (snd z) (c, s) = Returned (c2, s2)" and
    rest: "run_zones net rnd cfg zs (c2, s2) = Returned (c1, s1)"
    by (auto split: outcome.splits)
  have t2: "tally c2 \<and> current_state c2 = current_state c + length (snd z)"
    using inner Cons.prems(2) by (rule run_states_tally)
  then show ?case using Cons.IH [OF rest] by simp
qed

lemma tally_empty: "tally empty_collector"
  by (simp add: tally_def empty_collector_def)

text \<open>
  What the orchestrator does when the fetcher returns: a location without data is
  counted, its state is appended to the failed list, the three accumulators stay as they
  are and the loop goes on with the remaining locations.  When the loops have run
  through, every location is either among the successful tables or in the failed list,
  and if no location succeeded the result is \<open>None\<close> instead of master tables.
\<close>

lemma returned_none_is_recorded:
  "(download_nasa_power_data net lat lon (START_YEAR cfg) (END_YEAR cfg) s = (Returned None, s1)
      \<longrightarrow>
      run_states net rnd cfg zone ((state, lat, lon) # rest) (c, s) =
      run_states net rnd cfg zone rest
        (c\<lparr>current_state := current_state c + 1,
           failed_states := failed_states c @ [state]\<rparr>, sleep 3 s1)) \<and>
   (run_zones net rnd cfg (ZONES cfg) (empty_collector, s0) = Returned (c_end, s_end) \<longrightarrow>
      length (all_temperature_data c_end) + length (failed_states c_end) = total_states cfg \<and>
      (all_temperature_data c_end = [] \<longrightarrow>
         length (failed_states c_end) = total_states cfg \<and>
         collect_all_nasa_climate_data net rnd cfg s0 = Returned None))"
proof (intro conjI impI)
  assume "download_nasa_power_data net lat lon (START_YEAR cfg) (END_YEAR cfg) s = (Returned None, s1)"
  then show "run_states net rnd cfg zone ((state, lat, lon) # rest) (c, s) =
      run_states net rnd cfg zone rest
        (c\<lparr>current_state := current_state c + 1,
           failed_states := failed_states c @ [state]\<rparr>, sleep 3 s1)"
    by (simp add: state_step_no_data)
next
  assume run: "run_zones net rnd cfg (ZONES cfg) (empty_collector, s0) = Returned (c_end, s_end)"
  have t: "tally c_end \<and> current_state c_end = total_states cfg"
    using run_zones_tally [OF run tally_empty]
    by (simp add: total_states_def empty_collector_def)
  then show total: "length (all_temperature_data c_end) + length (failed_states c_end) = total_states cfg"
    by (simp add: tally_def)
  assume none: "all_temperature_data c_end = []"
  show "length (failed_states c_end) = total_states cfg" using total none by simp
  show "collect_all_nasa_climate_data net rnd cfg s0 = Returned None"
    using run none by (simp add: collect_all_nasa_climate_data_def master_tables_def)
qed

text \<open>
  Two locations and a service that never answers: both states end in the failed list,
  after three requests each.
\<close>

lemma small_outage_run:
  "run_zones net_down rnd_fixed cfg_small (ZONES cfg_small) (empty_collector, io0) =
   Returned
     (\<lparr>all_temperature_data = [], all_rainfall_data = [], all_humidity_data = [],
       current_state = 2, failed_states = [''Kaduna'', ''Kano'']\<rparr>,
      \<lparr>nreq = 6,
       trace = [Request (1052 / 100) (744 / 100) 2020 2020, Sleep 10,
                Request (1052 / 100) (744 / 100) 2020 2020, Sleep 20,
                Request (1052 / 100) (744 / 100) 2020 2020, Sleep 3,
                Request 12 (852 / 100) 2020 2020, Sleep 10,
                Request 12 (852 / 100) 2020 2020, Sleep 20,
                Request 12 (852 / 100) 2020 2020, Sleep 3]\<rparr>)"
  by code_simp

text \<open>
  Claim C10 says that a location without data is recorded as failed and never ends the
  run.  In the run below the response for the first location, Kaduna, has no
  \<^verbatim>\<open>PRECTOTCORR\<close> map.  January 2020 is seen, but its rainfall and humidity lists stay
  empty, so no month is aggregated; \<^verbatim>\<open>df['Date']\<close> then raises \<^verbatim>\<open>KeyError\<close> on the frame
  without columns, before the test that would return \<^verbatim>\<open>None\<close>.  The orchestrator calls
  the fetcher outside any \<^verbatim>\<open>try\<close>: the exception ends the collection, Kaduna is not
  recorded as failed, and Kano, whose response is complete, is never fetched.
\<close>

theorem C10_incomplete_location_aborts_run:
  "fst (accumulate net_no_rain_first (1052 / 100) (744 / 100) 2020 2020 io0) =
     \<lparr>dates = [(2020, 1)], temps_avg = [[30, 32, 34]], temps_max = [[35, 36, 37]],
      temps_min = [[25, 26, 27]], rainfall = [[]], humidity = [[]]\<rparr> \<and>
   download_nasa_power_data net_no_rain_first (1052 / 100) (744 / 100)
       (START_YEAR cfg_small) (END_YEAR cfg_small) io0 =
     (Raised KeyError,
      \<lparr>nreq = 1, trace = [Request (1052 / 100) (744 / 100) 2020 2020, Sleep 1]\<rparr>) \<and>
   run_zones net_no_rain_first rnd_fixed cfg_small (ZONES cfg_small) (empty_collector, io0) =
     Raised KeyError \<and>
   collect_all_nasa_climate_data net_no_rain_first rnd_fixed cfg_small io0 = Raised KeyError"
  by code_simp

end
